theory Spec2Isabelle
  imports Complex_Main
begin

section \<open>Python values and errors\<close>

text \<open>
  The three modules of the repository (\<^verbatim>\<open>robots/manipulator.py\<close>,
  \<^verbatim>\<open>priorities/constraints/constraint.py\<close> and
  \<^verbatim>\<open>approximators/approximator.py\<close>) are dynamically typed: their methods accept
  any Python value and decide what to do with \<^verbatim>\<open>isinstance\<close> and \<^verbatim>\<open>is None\<close>.
  The values that can reach them are modelled by one datatype. An instance of a
  user-defined class is \<open>PyObject mro specials attrs\<close>: the names of the classes of its
  method resolution order; the special methods its class defines, which Python looks
  up in the class and never in the instance (\<^verbatim>\<open>__call__\<close>, and \<^verbatim>\<open>__iter__\<close> given
  as the list of the items that iterating the object yields); and what reading an
  attribute name on the object gives. A raised exception is a value of \<open>py_error\<close>,
  returned as \<open>Inl\<close>.
\<close>

datatype py_error = TypeError | ValueError | AttributeError | IndexError

datatype py_value =
    PyNone
  | PyBool bool
  | PyInt int
  | PyFloat real
  | PyStr string
  | PyList "py_value list"
  | PyTuple "py_value list"
  | PyNdarray "py_value list"
  | PyFunction string
  | PyObject "string list" "(string \<times> py_value) list" "(string \<times> py_value) list"

text \<open>The classes a value is an instance of; \<^verbatim>\<open>bool\<close> is a subclass of \<^verbatim>\<open>int\<close>.\<close>

fun type_mro :: "py_value \<Rightarrow> string list" where
  "type_mro PyNone = [''NoneType'', ''object'']"
| "type_mro (PyBool _) = [''bool'', ''int'', ''object'']"
| "type_mro (PyInt _) = [''int'', ''object'']"
| "type_mro (PyFloat _) = [''float'', ''object'']"
| "type_mro (PyStr _) = [''str'', ''object'']"
| "type_mro (PyList _) = [''list'', ''object'']"
| "type_mro (PyTuple _) = [''tuple'', ''object'']"
| "type_mro (PyNdarray _) = [''ndarray'', ''object'']"
| "type_mro (PyFunction _) = [''function'', ''object'']"
| "type_mro (PyObject m _ _) = m"

definition isinstance :: "py_value \<Rightarrow> string \<Rightarrow> bool" where
  "isinstance v c = (c \<in> set (type_mro v))"

text \<open>\<^verbatim>\<open>isinstance(v, (c1, c2, ...))\<close>: an instance of one of the classes.\<close>

definition isinstance_any :: "py_value \<Rightarrow> string list \<Rightarrow> bool" where
  "isinstance_any v cs = list_ex (isinstance v) cs"

text \<open>
  \<^verbatim>\<open>xs[i]\<close> on a Python list with an integer index: an index below zero counts from
  the end, and an index outside the list raises \<^verbatim>\<open>IndexError\<close>.
\<close>

definition py_getitem :: "'a list \<Rightarrow> int \<Rightarrow> py_error + 'a" where
  "py_getitem xs i =
     (if 0 \<le> i \<and> i < int (length xs) then Inr (xs ! nat i)
      else if i < 0 \<and> - int (length xs) \<le> i then Inr (xs ! nat (int (length xs) + i))
      else Inl IndexError)"

text \<open>
  \<^verbatim>\<open>xs[k]\<close> where \<open>k\<close> is any Python value: an \<^verbatim>\<open>int\<close> (or a \<^verbatim>\<open>bool\<close>, which
  is one) indexes, anything else raises \<^verbatim>\<open>TypeError\<close> (list indices must be
  integers).
\<close>

fun list_subscript :: "'a list \<Rightarrow> py_value \<Rightarrow> py_error + 'a" where
  "list_subscript xs (PyInt i) = py_getitem xs i"
| "list_subscript xs (PyBool b) = py_getitem xs (if b then 1 else 0)"
| "list_subscript xs _ = Inl TypeError"

section \<open>\<^verbatim>\<open>robots/manipulator.py\<close>\<close>

text \<open>
  \<^verbatim>\<open>ManipulatorRobot.__init__\<close> sets \<^verbatim>\<open>self.arms = []\<close> (a list of arms, an arm
  being a list of link ids) and \<^verbatim>\<open>self.hands = []\<close> (a list of link ids).
  \<^verbatim>\<open>BiManipulatorRobot.__init__\<close> adds the four ids. The base class \<^verbatim>\<open>Robot\<close> is
  not part of these sources; its method \<^verbatim>\<open>get_link_ids\<close>, which the id getters call
  on a name, is a parameter \<open>gl\<close> of the model.
\<close>

record ManipulatorRobot =
  arms :: "int list list"
  hands :: "int list"

record BiManipulatorRobot = ManipulatorRobot +
  left_arm_id :: int
  left_hand_id :: int
  right_arm_id :: int
  right_hand_id :: int

definition ManipulatorRobot_init :: ManipulatorRobot where
  "ManipulatorRobot_init = \<lparr>arms = [], hands = []\<rparr>"

definition BiManipulatorRobot_init :: BiManipulatorRobot where
  "BiManipulatorRobot_init =
     \<lparr>arms = [], hands = [],
      left_arm_id = 0, left_hand_id = 0, right_arm_id = 1, right_hand_id = 1\<rparr>"

definition num_arms :: "'z ManipulatorRobot_scheme \<Rightarrow> nat" where
  "num_arms self = length (arms self)"

definition num_hands :: "'z ManipulatorRobot_scheme \<Rightarrow> nat" where
  "num_hands self = length (hands self)"

text \<open>
  What the id getters return: one entry of the list (\<^verbatim>\<open>self.arms[arms]\<close>), or a list
  of entries (the collected \<^verbatim>\<open>arm_ids\<close>, or \<^verbatim>\<open>self.arms\<close> itself).
\<close>

datatype 'a selection = One 'a | Many "'a list"

text \<open>The body of the \<^verbatim>\<open>for\<close> loop: the entry for one item of the given list.\<close>

definition item_ids ::
  "(py_value \<Rightarrow> py_error + py_value) \<Rightarrow> 'a list \<Rightarrow> py_value \<Rightarrow> py_error + 'a" where
  "item_ids gl xs item =
     (if isinstance item ''int'' then list_subscript xs item
      else if isinstance item ''str'' then
        (case gl item of Inl e \<Rightarrow> Inl e | Inr k \<Rightarrow> list_subscript xs k)
      else Inl TypeError)"

text \<open>The loop itself, with the list built so far as accumulator.\<close>

fun collect_ids ::
  "(py_value \<Rightarrow> py_error + py_value) \<Rightarrow> 'a list \<Rightarrow> py_value list \<Rightarrow> 'a list
   \<Rightarrow> py_error + 'a list" where
  "collect_ids gl xs [] acc = Inr acc"
| "collect_ids gl xs (item # rest) acc =
     (case item_ids gl xs item of
        Inl e \<Rightarrow> Inl e
      | Inr v \<Rightarrow> collect_ids gl xs rest (acc @ [v]))"

text \<open>The items a \<^verbatim>\<open>list\<close> or \<^verbatim>\<open>tuple\<close> argument is iterated over.\<close>

fun sequence_items :: "py_value \<Rightarrow> py_value list" where
  "sequence_items (PyList vs) = vs"
| "sequence_items (PyTuple vs) = vs"
| "sequence_items _ = []"

definition get_arm_ids ::
  "(py_value \<Rightarrow> py_error + py_value) \<Rightarrow> 'z ManipulatorRobot_scheme \<Rightarrow> py_value
   \<Rightarrow> py_error + int list selection" where
  "get_arm_ids gl self arms_arg =
     (if arms_arg \<noteq> PyNone then
        (if isinstance arms_arg ''int'' then
           map_sum id One (list_subscript (arms self) arms_arg)
         else if isinstance arms_arg ''str'' then
           (case gl arms_arg of
              Inl e \<Rightarrow> Inl e
            | Inr k \<Rightarrow> map_sum id One (list_subscript (arms self) k))
         else if isinstance_any arms_arg [''list'', ''tuple''] then
           map_sum id Many (collect_ids gl (arms self) (sequence_items arms_arg) [])
         else Inr (Many (arms self)))
      else Inr (Many (arms self)))"

definition get_hand_ids ::
  "(py_value \<Rightarrow> py_error + py_value) \<Rightarrow> 'z ManipulatorRobot_scheme \<Rightarrow> py_value
   \<Rightarrow> py_error + int selection" where
  "get_hand_ids gl self hands_arg =
     (if hands_arg \<noteq> PyNone then
        (if isinstance hands_arg ''int'' then
           map_sum id One (list_subscript (hands self) hands_arg)
         else if isinstance hands_arg ''str'' then
           (case gl hands_arg of
              Inl e \<Rightarrow> Inl e
            | Inr k \<Rightarrow> map_sum id One (list_subscript (hands self) k))
         else if isinstance_any hands_arg [''list'', ''tuple''] then
           map_sum id Many (collect_ids gl (hands self) (sequence_items hands_arg) [])
         else Inr (Many (hands self)))
      else Inr (Many (hands self)))"

text \<open>The four properties of \<^verbatim>\<open>BiManipulatorRobot\<close>.\<close>

definition left_arm :: "'z BiManipulatorRobot_scheme \<Rightarrow> py_error + int list" where
  "left_arm self = py_getitem (arms self) (left_arm_id self)"

definition right_arm :: "'z BiManipulatorRobot_scheme \<Rightarrow> py_error + int list" where
  "right_arm self = py_getitem (arms self) (right_arm_id self)"

definition left_hand :: "'z BiManipulatorRobot_scheme \<Rightarrow> py_error + int" where
  "left_hand self = py_getitem (hands self) (left_hand_id self)"

definition right_hand :: "'z BiManipulatorRobot_scheme \<Rightarrow> py_error + int" where
  "right_hand self = py_getitem (hands self) (right_arm_id self)"

section \<open>\<^verbatim>\<open>priorities/constraints/constraint.py\<close>\<close>

subsection \<open>The class hierarchy\<close>

text \<open>
  The module declares eleven classes. \<^verbatim>\<open>Constraint\<close> derives from \<^verbatim>\<open>object\<close> and
  has a body; the body of each of the ten others is \<^verbatim>\<open>pass\<close>. An attribute of an
  instance that the instance does not hold itself is looked up in the classes of the
  method resolution order of its class, the first class that defines the name winning.
\<close>

datatype cls =
    Constraint
  | EqualityConstraint
  | InequalityConstraint
  | UnilateralConstraint
  | BilateralConstraint
  | BoundConstraint
  | KinematicConstraint
  | JointVelocityConstraint
  | DynamicConstraint
  | JointAccelerationConstraint
  | JointEffortConstraint

fun mro :: "cls \<Rightarrow> cls list" where
  "mro Constraint = [Constraint]"
| "mro EqualityConstraint = [EqualityConstraint, Constraint]"
| "mro InequalityConstraint = [InequalityConstraint, Constraint]"
| "mro UnilateralConstraint = [UnilateralConstraint, InequalityConstraint, Constraint]"
| "mro BilateralConstraint = [BilateralConstraint, InequalityConstraint, Constraint]"
| "mro BoundConstraint = [BoundConstraint, InequalityConstraint, Constraint]"
| "mro KinematicConstraint = [KinematicConstraint, Constraint]"
| "mro JointVelocityConstraint = [JointVelocityConstraint, KinematicConstraint, Constraint]"
| "mro DynamicConstraint = [DynamicConstraint, Constraint]"
| "mro JointAccelerationConstraint =
     [JointAccelerationConstraint, DynamicConstraint, Constraint]"
| "mro JointEffortConstraint = [JointEffortConstraint, DynamicConstraint, Constraint]"

text \<open>
  An instance: its class and its own attributes (\<^verbatim>\<open>__dict__\<close>). A name that was never
  assigned is absent from the dictionary, and reading it raises \<^verbatim>\<open>AttributeError\<close>.
\<close>

record inst =
  klass :: cls
  attrs :: "string \<rightharpoonup> py_value"

definition getattr_own :: "inst \<Rightarrow> string \<Rightarrow> py_error + py_value" where
  "getattr_own self n = (case attrs self n of None \<Rightarrow> Inl AttributeError | Some v \<Rightarrow> Inr v)"

text \<open>
  A method runs on an instance and returns a value or raises, and leaves the instance
  in a state: the result and the instance afterwards.
\<close>

type_synonym outcome = "(py_error + py_value) \<times> inst"

subsection \<open>The body of \<^verbatim>\<open>Constraint\<close>\<close>

text \<open>The setter of \<^verbatim>\<open>model\<close>; \<^verbatim>\<open>__init__\<close> is the one assignment \<^verbatim>\<open>self.model = model\<close>.\<close>

definition Constraint_set_model :: "inst \<Rightarrow> py_value \<Rightarrow> outcome" where
  "Constraint_set_model self model =
     (if \<not> isinstance model ''ModelInterface'' then (Inl TypeError, self)
      else (Inr PyNone, self\<lparr>attrs := (attrs self)(''_model'' \<mapsto> model)\<rparr>))"

definition Constraint_init :: "inst \<Rightarrow> py_value \<Rightarrow> outcome" where
  "Constraint_init self model = Constraint_set_model self model"

text \<open>The getters that return a private attribute.\<close>

definition Constraint_model :: "inst \<Rightarrow> outcome" where
  "Constraint_model self = (getattr_own self ''_model'', self)"

definition Constraint_lower_bound :: "inst \<Rightarrow> outcome" where
  "Constraint_lower_bound self = (getattr_own self ''_lower_bound'', self)"

definition Constraint_upper_bound :: "inst \<Rightarrow> outcome" where
  "Constraint_upper_bound self = (getattr_own self ''_upper_bound'', self)"

definition Constraint_A_eq :: "inst \<Rightarrow> outcome" where
  "Constraint_A_eq self = (getattr_own self ''_A_eq'', self)"

definition Constraint_b_eq :: "inst \<Rightarrow> outcome" where
  "Constraint_b_eq self = (getattr_own self ''_b_eq'', self)"

definition Constraint_A_ineq :: "inst \<Rightarrow> outcome" where
  "Constraint_A_ineq self = (getattr_own self ''_A_ineq'', self)"

definition Constraint_b_lower_bound :: "inst \<Rightarrow> outcome" where
  "Constraint_b_lower_bound self = (getattr_own self ''_b_lower_bound'', self)"

definition Constraint_b_upper_bound :: "inst \<Rightarrow> outcome" where
  "Constraint_b_upper_bound self = (getattr_own self ''_b_upper_bound'', self)"

text \<open>
  The getters of the standard form: the body of \<^verbatim>\<open>G\<close>, \<^verbatim>\<open>h\<close> and \<^verbatim>\<open>F\<close> is
  \<^verbatim>\<open>pass\<close>, the body of \<^verbatim>\<open>c\<close> is its docstring alone. A function that ends without
  \<^verbatim>\<open>return\<close> returns \<^verbatim>\<open>None\<close>.
\<close>

definition Constraint_G :: "inst \<Rightarrow> outcome" where
  "Constraint_G self = (Inr PyNone, self)"

definition Constraint_h :: "inst \<Rightarrow> outcome" where
  "Constraint_h self = (Inr PyNone, self)"

definition Constraint_F :: "inst \<Rightarrow> outcome" where
  "Constraint_F self = (Inr PyNone, self)"

definition Constraint_c :: "inst \<Rightarrow> outcome" where
  "Constraint_c self = (Inr PyNone, self)"

text \<open>The static methods: no argument, not even the instance.\<close>

definition Constraint_is_equality_constraint :: bool where
  "Constraint_is_equality_constraint = False"

definition Constraint_is_inequality_constraint :: bool where
  "Constraint_is_inequality_constraint = False"

definition Constraint_has_bounds :: bool where
  "Constraint_has_bounds = False"

definition Constraint_is_unilateral_constraint :: bool where
  "Constraint_is_unilateral_constraint = False"

definition Constraint_is_bilateral_constraint :: bool where
  "Constraint_is_bilateral_constraint = False"

text \<open>\<^verbatim>\<open>update\<close> (its body is \<^verbatim>\<open>pass\<close>) and \<^verbatim>\<open>__call__\<close>, which returns \<^verbatim>\<open>self.update(x)\<close>.\<close>

definition Constraint_update :: "inst \<Rightarrow> py_value \<Rightarrow> outcome" where
  "Constraint_update self x = (Inr PyNone, self)"

subsection \<open>Attribute lookup through the classes\<close>

text \<open>What the body of each class defines, by kind of member.\<close>

fun class_properties :: "cls \<Rightarrow> (string \<times> (inst \<Rightarrow> outcome)) list" where
  "class_properties Constraint =
     [(''model'', Constraint_model),
      (''lower_bound'', Constraint_lower_bound),
      (''upper_bound'', Constraint_upper_bound),
      (''A_eq'', Constraint_A_eq),
      (''b_eq'', Constraint_b_eq),
      (''A_ineq'', Constraint_A_ineq),
      (''b_lower_bound'', Constraint_b_lower_bound),
      (''b_ineq_lower'', Constraint_b_lower_bound),
      (''b_upper_bound'', Constraint_b_upper_bound),
      (''G'', Constraint_G),
      (''h'', Constraint_h),
      (''F'', Constraint_F),
      (''c'', Constraint_c)]"
| "class_properties _ = []"

fun class_setters :: "cls \<Rightarrow> (string \<times> (inst \<Rightarrow> py_value \<Rightarrow> outcome)) list" where
  "class_setters Constraint = [(''model'', Constraint_set_model)]"
| "class_setters _ = []"

fun class_staticmethods :: "cls \<Rightarrow> (string \<times> bool) list" where
  "class_staticmethods Constraint =
     [(''is_equality_constraint'', Constraint_is_equality_constraint),
      (''is_inequality_constraint'', Constraint_is_inequality_constraint),
      (''has_bounds'', Constraint_has_bounds),
      (''is_unilateral_constraint'', Constraint_is_unilateral_constraint),
      (''is_bilateral_constraint'', Constraint_is_bilateral_constraint)]"
| "class_staticmethods _ = []"

fun class_methods :: "cls \<Rightarrow> (string \<times> (inst \<Rightarrow> py_value \<Rightarrow> outcome)) list" where
  "class_methods Constraint =
     [(''__init__'', Constraint_init),
      (''update'', Constraint_update)]"
| "class_methods _ = []"

text \<open>The first class of the resolution order that defines the name.\<close>

fun lookup_mro :: "(cls \<Rightarrow> (string \<times> 'm) list) \<Rightarrow> cls list \<Rightarrow> string \<Rightarrow> 'm option" where
  "lookup_mro body [] n = None"
| "lookup_mro body (k # ks) n =
     (case map_of (body k) n of Some m \<Rightarrow> Some m | None \<Rightarrow> lookup_mro body ks n)"

text \<open>
  Reading a property (\<^verbatim>\<open>self.n\<close>, for the name \<open>n\<close> of a property), and calling a
  static method or a method through the class of the instance
  (\<^verbatim>\<open>type(self).n()\<close>, \<^verbatim>\<open>type(self).n(self, x)\<close>): the member is the one the class
  resolves, whatever attributes the instance holds.
\<close>

definition get_property :: "inst \<Rightarrow> string \<Rightarrow> outcome" where
  "get_property self n =
     (case lookup_mro class_properties (mro (klass self)) n of
        None \<Rightarrow> (Inl AttributeError, self)
      | Some getter \<Rightarrow> getter self)"

text \<open>
  The assignment \<^verbatim>\<open>self.n = v\<close>, for any name \<open>n\<close>. A property of the class takes
  the assignment: its setter runs, and a property without a setter raises
  \<^verbatim>\<open>AttributeError\<close>. \<^verbatim>\<open>__class__\<close> and \<^verbatim>\<open>__dict__\<close> accept only a class and a
  dictionary, which no value here is, and \<^verbatim>\<open>__weakref__\<close> is not writable. Any other
  name becomes an attribute of the instance.
\<close>

definition set_property :: "inst \<Rightarrow> string \<Rightarrow> py_value \<Rightarrow> outcome" where
  "set_property self n v =
     (case lookup_mro class_setters (mro (klass self)) n of
        Some setter \<Rightarrow> setter self v
      | None \<Rightarrow>
          if lookup_mro class_properties (mro (klass self)) n \<noteq> None
            then (Inl AttributeError, self)
          else if n = ''__class__'' \<or> n = ''__dict__'' then (Inl TypeError, self)
          else if n = ''__weakref__'' then (Inl AttributeError, self)
          else (Inr PyNone, self\<lparr>attrs := (attrs self)(n \<mapsto> v)\<rparr>))"

definition call_static :: "inst \<Rightarrow> string \<Rightarrow> py_error + bool" where
  "call_static self n =
     (case lookup_mro class_staticmethods (mro (klass self)) n of
        None \<Rightarrow> Inl AttributeError
      | Some b \<Rightarrow> Inr b)"

definition call_method :: "inst \<Rightarrow> string \<Rightarrow> py_value \<Rightarrow> outcome" where
  "call_method self n x =
     (case lookup_mro class_methods (mro (klass self)) n of
        None \<Rightarrow> (Inl AttributeError, self)
      | Some m \<Rightarrow> m self x)"

text \<open>\<^verbatim>\<open>Constraint.__call__\<close>: \<^verbatim>\<open>return self.update(x)\<close>, the method looked up again.\<close>

definition Constraint_call :: "inst \<Rightarrow> py_value \<Rightarrow> outcome" where
  "Constraint_call self x = call_method self ''update'' x"

text \<open>
  Creating an instance, \<^verbatim>\<open>k(model)\<close>: a new object of class \<open>k\<close> with no attribute,
  on which \<^verbatim>\<open>__init__\<close> runs. When \<^verbatim>\<open>__init__\<close> raises there is no instance.
\<close>

definition new :: "cls \<Rightarrow> py_value \<Rightarrow> py_error + inst" where
  "new k model =
     (case call_method \<lparr>klass = k, attrs = Map.empty\<rparr> ''__init__'' model of
        (Inl e, _) \<Rightarrow> Inl e
      | (Inr _, self) \<Rightarrow> Inr self)"

text \<open>
  What a caller can do with an instance (call \<^verbatim>\<open>update\<close>, call the instance, assign
  to a name, read a property, call one of the static predicates), and the state it
  leaves; an operation that raises leaves the state it raised in.
\<close>

datatype operation =
    Update py_value
  | Call py_value
  | SetProperty string py_value
  | GetProperty string
  | Predicate string

fun perform :: "inst \<Rightarrow> operation \<Rightarrow> inst" where
  "perform self (Update x) = snd (call_method self ''update'' x)"
| "perform self (Call x) = snd (Constraint_call self x)"
| "perform self (SetProperty n v) = snd (set_property self n v)"
| "perform self (GetProperty n) = snd (get_property self n)"
| "perform self (Predicate n) = self"

definition perform_all :: "inst \<Rightarrow> operation list \<Rightarrow> inst" where
  "perform_all self ops = foldl perform self ops"

fun is_assignment :: "operation \<Rightarrow> bool" where
  "is_assignment (SetProperty n v) = True"
| "is_assignment _ = False"

section \<open>\<^verbatim>\<open>approximators/approximator.py\<close>\<close>

text \<open>
  An \<^verbatim>\<open>Approximator\<close> is its own attributes. \<^verbatim>\<open>State\<close>, \<^verbatim>\<open>Action\<close>,
  \<^verbatim>\<open>torch.Tensor\<close> and the learning model are classes of other modules; an instance
  of one is a \<open>PyObject\<close> with the class among its resolution order, and the model's
  \<^verbatim>\<open>input_shape\<close> is one of the attributes that can be read on it.
\<close>

type_synonym approximator = "string \<rightharpoonup> py_value"

text \<open>
  \<^verbatim>\<open>v.n\<close> on a value, for an ordinary attribute name \<open>n\<close>: only an object of a
  user-defined class has such attributes here.
\<close>

fun getattr_value :: "py_value \<Rightarrow> string \<Rightarrow> py_error + py_value" where
  "getattr_value (PyObject _ _ as) n =
     (case map_of as n of None \<Rightarrow> Inl AttributeError | Some x \<Rightarrow> Inr x)"
| "getattr_value _ n = Inl AttributeError"

text \<open>Running one step after another, the first exception ending the run.\<close>

fun and_then :: "py_error + 'a \<Rightarrow> ('a \<Rightarrow> py_error + 'b) \<Rightarrow> py_error + 'b" where
  "and_then (Inl e) f = Inl e"
| "and_then (Inr x) f = f x"

text \<open>
  The setters of \<^verbatim>\<open>inputs\<close> and \<^verbatim>\<open>outputs\<close>: a number becomes the array
  \<^verbatim>\<open>np.array([inputs])\<close>, a value of another class than the four accepted ones raises
  \<^verbatim>\<open>TypeError\<close>, and \<^verbatim>\<open>self._model\<close> is read (the branch it guards is \<^verbatim>\<open>pass\<close>).
\<close>

definition Approximator_set_inputs :: "approximator \<Rightarrow> py_value \<Rightarrow> py_error + approximator" where
  "Approximator_set_inputs self inputs =
     (if inputs \<noteq> PyNone then
        and_then
          (if isinstance_any inputs [''int'', ''float''] then Inr (PyNdarray [inputs])
           else if \<not> isinstance_any inputs [''State'', ''Action'', ''Tensor'', ''ndarray'']
             then Inl TypeError
           else Inr inputs)
          (\<lambda>inputs'. case self ''_model'' of
               None \<Rightarrow> Inl AttributeError
             | Some m \<Rightarrow> Inr (self(''_inputs'' \<mapsto> inputs')))
      else Inr (self(''_inputs'' \<mapsto> inputs)))"

definition Approximator_set_outputs :: "approximator \<Rightarrow> py_value \<Rightarrow> py_error + approximator" where
  "Approximator_set_outputs self outputs =
     (if outputs \<noteq> PyNone then
        and_then
          (if isinstance_any outputs [''int'', ''float''] then Inr (PyNdarray [outputs])
           else if \<not> isinstance_any outputs [''State'', ''Action'', ''Tensor'', ''ndarray'']
             then Inl TypeError
           else Inr outputs)
          (\<lambda>outputs'. case self ''_model'' of
               None \<Rightarrow> Inl AttributeError
             | Some m \<Rightarrow> Inr (self(''_outputs'' \<mapsto> outputs')))
      else Inr (self(''_outputs'' \<mapsto> outputs)))"

text \<open>
  The setter of \<^verbatim>\<open>model\<close>. For a model that is not \<^verbatim>\<open>None\<close> it raises
  \<^verbatim>\<open>ValueError\<close> when the inputs or the outputs are \<^verbatim>\<open>None\<close>, then reads
  \<^verbatim>\<open>model.input_shape\<close> into a local variable that nothing uses (the rest of the
  check is a \<^verbatim>\<open>TODO\<close> comment), then stores the model.
\<close>

definition Approximator_set_model :: "approximator \<Rightarrow> py_value \<Rightarrow> py_error + approximator" where
  "Approximator_set_model self model =
     (if model \<noteq> PyNone then
        (case self ''_inputs'' of
           None \<Rightarrow> Inl AttributeError
         | Some i \<Rightarrow>
             if i = PyNone then Inl ValueError
             else (case self ''_outputs'' of
                 None \<Rightarrow> Inl AttributeError
               | Some out \<Rightarrow>
                   if out = PyNone then Inl ValueError
                   else and_then (getattr_value model ''input_shape'')
                          (\<lambda>shape. Inr (self(''_model'' \<mapsto> model)))))
      else Inr (self(''_model'' \<mapsto> model)))"

text \<open>
  The setters of the processors. \<^verbatim>\<open>callable(v)\<close> holds of a function and of an object
  whose class defines \<^verbatim>\<open>__call__\<close> (an attribute of that name on the instance does not
  count). \<^verbatim>\<open>isinstance(v, collections.Iterable)\<close> holds of the lists, tuples, arrays
  and strings and of an object whose class defines \<^verbatim>\<open>__iter__\<close>, and the loop runs
  over the items that iterating yields (for a string its characters).
\<close>

fun callable :: "py_value \<Rightarrow> bool" where
  "callable (PyFunction _) = True"
| "callable (PyObject _ specials _) = (map_of specials ''__call__'' \<noteq> None)"
| "callable _ = False"

fun iter_items :: "py_value \<Rightarrow> py_value list option" where
  "iter_items (PyList vs) = Some vs"
| "iter_items (PyTuple vs) = Some vs"
| "iter_items (PyNdarray vs) = Some vs"
| "iter_items (PyStr s) = Some (map (\<lambda>ch. PyStr [ch]) s)"
| "iter_items (PyObject _ specials _) =
     (case map_of specials ''__iter__'' of
        None \<Rightarrow> None
      | Some items \<Rightarrow> Some (sequence_items items))"
| "iter_items _ = None"

definition checked_processors :: "py_value \<Rightarrow> py_error + py_value" where
  "checked_processors processors =
     (if processors = PyNone then Inr (PyList [])
      else if callable processors then Inr (PyList [processors])
      else (case iter_items processors of
          Some items \<Rightarrow> if list_all callable items then Inr processors else Inl ValueError
        | None \<Rightarrow> Inl TypeError))"

definition Approximator_set_preprocessors ::
  "approximator \<Rightarrow> py_value \<Rightarrow> py_error + approximator" where
  "Approximator_set_preprocessors self processors =
     and_then (checked_processors processors) (\<lambda>ps. Inr (self(''_preprocessors'' \<mapsto> ps)))"

definition Approximator_set_postprocessors ::
  "approximator \<Rightarrow> py_value \<Rightarrow> py_error + approximator" where
  "Approximator_set_postprocessors self processors =
     and_then (checked_processors processors) (\<lambda>ps. Inr (self(''_postprocessors'' \<mapsto> ps)))"

text \<open>\<^verbatim>\<open>Approximator.__init__\<close>: \<^verbatim>\<open>self._model = None\<close>, then the five setters.\<close>

definition Approximator_init ::
  "py_value \<Rightarrow> py_value \<Rightarrow> py_value \<Rightarrow> py_value \<Rightarrow> py_value \<Rightarrow> py_error + approximator" where
  "Approximator_init inputs outputs model preprocessors postprocessors =
     and_then (Approximator_set_inputs [''_model'' \<mapsto> PyNone] inputs) (\<lambda>s1.
     and_then (Approximator_set_outputs s1 outputs) (\<lambda>s2.
     and_then (Approximator_set_preprocessors s2 preprocessors) (\<lambda>s3.
     and_then (Approximator_set_postprocessors s3 postprocessors) (\<lambda>s4.
     Approximator_set_model s4 model))))"

section \<open>The quadratic programs of the module docstring\<close>

text \<open>
  Modelled from the spec: the priority aggregator (the soft and the hard composition of
  tasks into quadratic programs) is described by the docstring of
  \<^verbatim>\<open>constraint.py\<close> and by the specification, and no code of these sources
  implements it. Every definition of this section follows that description. The
  vectors and matrices of its formulas are lists of reals and lists of rows, with the
  dot product, the sum, the difference, the multiple and the product \<open>A x\<close>.
\<close>

type_synonym vec = "real list"
type_synonym mat = "real list list"

definition dot :: "vec \<Rightarrow> vec \<Rightarrow> real" where
  "dot u v = sum_list (map2 (*) u v)"

definition vec_add :: "vec \<Rightarrow> vec \<Rightarrow> vec" where
  "vec_add u v = map2 (+) u v"

definition vec_sub :: "vec \<Rightarrow> vec \<Rightarrow> vec" where
  "vec_sub u v = map2 (-) u v"

definition scale :: "real \<Rightarrow> vec \<Rightarrow> vec" where
  "scale a v = map ((*) a) v"

definition mat_vec :: "mat \<Rightarrow> vec \<Rightarrow> vec" where
  "mat_vec A x = map (\<lambda>row. dot row x) A"

text \<open>
  Modelled from the spec: the transpose \<open>A\<^sup>T\<close> and the product of two matrices, which
  the formulas for \<open>Q\<close> and \<open>p\<close> use, and what it is for a list of rows to be an
  \<open>m\<close> by \<open>n\<close> matrix and to be symmetric. A matrix without rows does not tell how
  many columns it has, so the transpose and the product take the number of columns (of
  the matrix transposed, of the right factor) as an argument.
\<close>

definition mat_transpose :: "nat \<Rightarrow> mat \<Rightarrow> mat" where
  "mat_transpose n A = map (\<lambda>j. map (\<lambda>row. row ! j) A) [0..<n]"

definition mat_mul :: "nat \<Rightarrow> mat \<Rightarrow> mat \<Rightarrow> mat" where
  "mat_mul n A B = map (\<lambda>row. map (\<lambda>col. dot row col) (mat_transpose n B)) A"

definition is_matrix :: "nat \<Rightarrow> nat \<Rightarrow> mat \<Rightarrow> bool" where
  "is_matrix m n A = (length A = m \<and> list_all (\<lambda>row. length row = n) A)"

definition symmetric :: "mat \<Rightarrow> bool" where
  "symmetric W = (mat_transpose (length W) W = W)"

text \<open>
  Modelled from the spec: the weighted objective \<open>||A x - b||\<^sup>2\<^sub>W = (A x - b)\<^sup>T W (A x - b)\<close>
  of a soft task, and the data \<open>Q = A\<^sup>T W A\<close>, \<open>p = -2 A\<^sup>T W b\<close> (with a linear
  cost term \<open>c\<close>: \<open>p = c - 2 A\<^sup>T W b\<close>) of its standard form \<open>x\<^sup>T Q x + p\<^sup>T x\<close>;
  \<open>n\<close> is the number of columns of \<open>A\<close>, the length of \<open>x\<close>.
\<close>

definition weighted_sq_norm :: "mat \<Rightarrow> vec \<Rightarrow> real" where
  "weighted_sq_norm W r = dot r (mat_vec W r)"

definition objective :: "mat \<Rightarrow> vec \<Rightarrow> mat \<Rightarrow> vec \<Rightarrow> real" where
  "objective A b W x = weighted_sq_norm W (vec_sub (mat_vec A x) b)"

definition qp_Q :: "nat \<Rightarrow> mat \<Rightarrow> mat \<Rightarrow> mat" where
  "qp_Q n A W = mat_mul n (mat_transpose n A) (mat_mul n W A)"

definition qp_p :: "nat \<Rightarrow> mat \<Rightarrow> mat \<Rightarrow> vec \<Rightarrow> vec" where
  "qp_p n A W b = scale (- 2) (mat_vec (mat_mul (length W) (mat_transpose n A) W) b)"

definition qp_p_linear :: "nat \<Rightarrow> mat \<Rightarrow> mat \<Rightarrow> vec \<Rightarrow> vec \<Rightarrow> vec" where
  "qp_p_linear n A W b c = vec_add c (qp_p n A W b)"

definition standard_form :: "mat \<Rightarrow> vec \<Rightarrow> vec \<Rightarrow> real" where
  "standard_form Q p x = dot x (mat_vec Q x) + dot p x"

text \<open>
  Modelled from the spec: a level of a hard-priority cascade is a task \<open>(A, b)\<close> with
  its constraints \<open>G x \<le> h\<close> and \<open>F x = c\<close>. Level \<open>i\<close> (counted from 0) is solved under
  the constraints of the levels \<open>0..i\<close> and, for every level \<open>j < i\<close> with solution
  \<open>x\<^sub>j\<^sup>*\<close>, the frozen equality \<open>A\<^sub>j x = A\<^sub>j x\<^sub>j\<^sup>*\<close>; its solution minimises the
  residual \<open>||A\<^sub>i x - b\<^sub>i||\<close> among the vectors that satisfy them.
\<close>

record level =
  task_A :: mat
  task_b :: vec
  ineq_G :: mat
  ineq_h :: vec
  eq_F :: mat
  eq_c :: vec

definition vec_norm :: "vec \<Rightarrow> real" where
  "vec_norm v = sqrt (dot v v)"

definition residual :: "level \<Rightarrow> vec \<Rightarrow> real" where
  "residual L x = vec_norm (vec_sub (mat_vec (task_A L) x) (task_b L))"

definition own_constraints :: "level \<Rightarrow> vec \<Rightarrow> bool" where
  "own_constraints L x =
     (list_all2 (\<le>) (mat_vec (ineq_G L) x) (ineq_h L) \<and> mat_vec (eq_F L) x = eq_c L)"

definition frozen :: "level \<Rightarrow> vec \<Rightarrow> vec \<Rightarrow> bool" where
  "frozen L xstar x = (mat_vec (task_A L) x = mat_vec (task_A L) xstar)"

definition all_frozen :: "level list \<Rightarrow> vec list \<Rightarrow> nat \<Rightarrow> vec \<Rightarrow> bool" where
  "all_frozen Ls sols i x = list_all (\<lambda>(L, xstar). frozen L xstar x) (zip (take i Ls) sols)"

definition feasible :: "level list \<Rightarrow> vec list \<Rightarrow> nat \<Rightarrow> vec \<Rightarrow> bool" where
  "feasible Ls sols i x =
     (list_all (\<lambda>L. own_constraints L x) (take (Suc i) Ls) \<and> all_frozen Ls sols i x)"

definition solves :: "level list \<Rightarrow> vec list \<Rightarrow> nat \<Rightarrow> vec \<Rightarrow> bool" where
  "solves Ls sols i x =
     (feasible Ls sols i x
      \<and> (\<forall>y. feasible Ls sols i y \<longrightarrow> residual (Ls ! i) x \<le> residual (Ls ! i) y))"

section \<open>Properties of the manipulator robots\<close>

text \<open>
  Claim C9. For every \<^verbatim>\<open>ManipulatorRobot\<close>, \<^verbatim>\<open>get_arm_ids\<close> (respectively
  \<^verbatim>\<open>get_hand_ids\<close>) called with an argument that is not \<^verbatim>\<open>None\<close> and not an
  \<^verbatim>\<open>int\<close>, \<^verbatim>\<open>str\<close>, \<^verbatim>\<open>list\<close> or \<^verbatim>\<open>tuple\<close> raises nothing: it falls through
  and returns the whole list of arms (respectively hands), which is also what the call
  with \<^verbatim>\<open>None\<close> returns.
\<close>

theorem get_ids_fall_through:
  assumes "a \<noteq> PyNone" "\<not> isinstance a ''int''" "\<not> isinstance a ''str''"
    and "\<not> isinstance a ''list''" "\<not> isinstance a ''tuple''"
  shows "get_arm_ids gl self a = Inr (Many (arms self))
       \<and> get_arm_ids gl self a = get_arm_ids gl self PyNone
       \<and> get_hand_ids gl self a = Inr (Many (hands self))
       \<and> get_hand_ids gl self a = get_hand_ids gl self PyNone"
  using assms by (simp add: get_arm_ids_def get_hand_ids_def isinstance_any_def)

text \<open>A \<^verbatim>\<open>float\<close> argument, on a robot with two arms and two hands.\<close>

theorem get_ids_fall_through_witness:
  "PyFloat 2 \<noteq> PyNone \<and> \<not> isinstance (PyFloat 2) ''int'' \<and> \<not> isinstance (PyFloat 2) ''str''
   \<and> \<not> isinstance (PyFloat 2) ''list'' \<and> \<not> isinstance (PyFloat 2) ''tuple''
   \<and> get_arm_ids (\<lambda>_. Inl ValueError)
         (ManipulatorRobot_init\<lparr>arms := [[1, 2], [3]], hands := [2, 3]\<rparr>) (PyFloat 2)
       = Inr (Many [[1, 2], [3]])
   \<and> get_hand_ids (\<lambda>_. Inl ValueError)
         (ManipulatorRobot_init\<lparr>arms := [[1, 2], [3]], hands := [2, 3]\<rparr>) (PyFloat 2)
       = Inr (Many [2, 3])"
  using get_ids_fall_through [of "PyFloat 2" "\<lambda>_. Inl ValueError"
      "ManipulatorRobot_init\<lparr>arms := [[1, 2], [3]], hands := [2, 3]\<rparr>"]
  by (simp add: isinstance_def ManipulatorRobot_init_def)

text \<open>
  Two different indices read different entries of some list: one long enough for both
  to be in range and, when one of them counts from the end, not to meet the other.
\<close>

lemma py_getitem_upt:
  assumes "- int n \<le> i" "i < int n"
  shows "py_getitem (map int [0..<n]) i = Inr (if i < 0 then int n + i else i)"
  using assms by (auto simp: py_getitem_def)

lemma py_getitem_separates:
  assumes "a \<noteq> h"
  shows "\<exists>hs :: int list. py_getitem hs a \<noteq> py_getitem hs h"
proof -
  define n where "n = nat (\<bar>a\<bar> + \<bar>h\<bar> + 1)"
  have "- int n \<le> a" "a < int n" "- int n \<le> h" "h < int n"
    by (simp_all add: n_def)
  then have "py_getitem (map int [0..<n]) a = Inr (if a < 0 then int n + a else a)"
    and "py_getitem (map int [0..<n]) h = Inr (if h < 0 then int n + h else h)"
    by (simp_all add: py_getitem_upt)
  moreover have "(if a < 0 then int n + a else a) \<noteq> (if h < 0 then int n + h else h)"
    using assms by (auto simp: n_def)
  ultimately have "py_getitem (map int [0..<n]) a \<noteq> py_getitem (map int [0..<n]) h"
    by simp
  then show ?thesis ..
qed

text \<open>
  Claim C10. For every \<^verbatim>\<open>BiManipulatorRobot\<close>, \<^verbatim>\<open>right_hand\<close> returns
  \<^verbatim>\<open>hands[right_arm_id]\<close>, not \<^verbatim>\<open>hands[right_hand_id]\<close>, while \<^verbatim>\<open>left_hand\<close>
  returns \<^verbatim>\<open>hands[left_hand_id]\<close>. The constructor sets both right ids to 1, so the
  two readings agree on a new robot; they agree whatever the list of hands is exactly
  when \<^verbatim>\<open>right_hand_id\<close> equals \<^verbatim>\<open>right_arm_id\<close>.
\<close>

theorem right_hand_indexes_with_right_arm_id:
  "right_hand self = py_getitem (hands self) (right_arm_id self)
   \<and> left_hand self = py_getitem (hands self) (left_hand_id self)
   \<and> right_arm_id BiManipulatorRobot_init = 1
   \<and> right_hand_id BiManipulatorRobot_init = 1
   \<and> right_hand BiManipulatorRobot_init
       = py_getitem (hands BiManipulatorRobot_init) (right_hand_id BiManipulatorRobot_init)
   \<and> ((\<forall>hs. right_hand (self\<lparr>hands := hs\<rparr>) = py_getitem hs (right_hand_id self))
        = (right_hand_id self = right_arm_id self))"
proof -
  have "(\<forall>hs. right_hand (self\<lparr>hands := hs\<rparr>) = py_getitem hs (right_hand_id self))
        = (right_hand_id self = right_arm_id self)"
  proof
    assume agree: "\<forall>hs. right_hand (self\<lparr>hands := hs\<rparr>) = py_getitem hs (right_hand_id self)"
    show "right_hand_id self = right_arm_id self"
    proof (rule ccontr)
      assume "right_hand_id self \<noteq> right_arm_id self"
      then obtain hs :: "int list"
        where "py_getitem hs (right_arm_id self) \<noteq> py_getitem hs (right_hand_id self)"
        using py_getitem_separates [of "right_arm_id self" "right_hand_id self"] by auto
      with agree show False by (simp add: right_hand_def)
    qed
  next
    assume "right_hand_id self = right_arm_id self"
    then show "\<forall>hs. right_hand (self\<lparr>hands := hs\<rparr>) = py_getitem hs (right_hand_id self)"
      by (simp add: right_hand_def)
  qed
  then show ?thesis
    by (simp add: right_hand_def left_hand_def BiManipulatorRobot_init_def)
qed

text \<open>
  A robot with three hands whose \<^verbatim>\<open>right_hand_id\<close> was set to 2: \<^verbatim>\<open>right_hand\<close> is
  still the hand at index 1.
\<close>

theorem right_hand_indexes_with_right_arm_id_witness:
  "right_hand (BiManipulatorRobot_init\<lparr>hands := [7, 8, 9], right_hand_id := 2\<rparr>) = Inr 8
   \<and> py_getitem [7, 8, 9 :: int]
        (right_hand_id (BiManipulatorRobot_init\<lparr>hands := [7, 8, 9], right_hand_id := 2\<rparr>))
       = Inr 9
   \<and> left_hand (BiManipulatorRobot_init\<lparr>hands := [7, 8, 9], right_hand_id := 2\<rparr>) = Inr 7"
  using right_hand_indexes_with_right_arm_id
    [of "BiManipulatorRobot_init\<lparr>hands := [7, 8, 9], right_hand_id := 2\<rparr>"]
  by (simp add: BiManipulatorRobot_init_def py_getitem_def)

section \<open>Properties of the constraints\<close>

subsection \<open>Every lookup ends in the body of \<^verbatim>\<open>Constraint\<close>\<close>

lemma lookup_mro_Constraint:
  assumes "\<And>c. c \<noteq> Constraint \<Longrightarrow> body c = []"
  shows "lookup_mro body (mro k) n = map_of (body Constraint) n"
  using assms by (cases k) (simp_all split: option.split)

lemma lookup_properties:
  "lookup_mro class_properties (mro k) n = map_of (class_properties Constraint) n"
  by (rule lookup_mro_Constraint) (case_tac c; simp)

lemma lookup_setters:
  "lookup_mro class_setters (mro k) n = map_of (class_setters Constraint) n"
  by (rule lookup_mro_Constraint) (case_tac c; simp)

lemma lookup_staticmethods:
  "lookup_mro class_staticmethods (mro k) n = map_of (class_staticmethods Constraint) n"
  by (rule lookup_mro_Constraint) (case_tac c; simp)

lemma lookup_methods:
  "lookup_mro class_methods (mro k) n = map_of (class_methods Constraint) n"
  by (rule lookup_mro_Constraint) (case_tac c; simp)

lemma call_update: "call_method self ''update'' x = (Inr PyNone, self)"
  by (simp add: call_method_def lookup_methods Constraint_update_def)

lemma call_init: "call_method self ''__init__'' v = Constraint_set_model self v"
  by (simp add: call_method_def lookup_methods Constraint_init_def)

lemma set_model: "set_property self ''model'' v = Constraint_set_model self v"
  by (simp add: set_property_def lookup_setters)

lemma snd_get_property: "snd (get_property self n) = self"
  by (simp add: get_property_def lookup_properties Constraint_model_def
      Constraint_lower_bound_def Constraint_upper_bound_def Constraint_A_eq_def
      Constraint_b_eq_def Constraint_A_ineq_def Constraint_b_lower_bound_def
      Constraint_b_upper_bound_def Constraint_G_def Constraint_h_def Constraint_F_def
      Constraint_c_def)

subsection \<open>What the operations leave unchanged\<close>

lemma klass_set_property: "klass (snd (set_property self n v)) = klass self"
  by (simp add: set_property_def lookup_setters lookup_properties Constraint_set_model_def)

lemma klass_perform: "klass (perform self op) = klass self"
  by (cases op)
    (simp_all add: call_update Constraint_call_def klass_set_property snd_get_property)

lemma klass_perform_all: "klass (perform_all self ops) = klass self"
  unfolding perform_all_def by (induction ops arbitrary: self) (simp_all add: klass_perform)

text \<open>Only an assignment changes the attributes of an instance.\<close>

lemma attrs_perform: "\<not> is_assignment op \<Longrightarrow> attrs (perform self op) = attrs self"
  by (cases op) (simp_all add: call_update Constraint_call_def snd_get_property)

lemma attrs_perform_all:
  "list_all (\<lambda>op. \<not> is_assignment op) ops \<Longrightarrow> attrs (perform_all self ops) = attrs self"
  unfolding perform_all_def by (induction ops arbitrary: self) (simp_all add: attrs_perform)

lemma call_static_klass: "klass s = klass t \<Longrightarrow> call_static s n = call_static t n"
  by (simp add: call_static_def)

subsection \<open>The classification predicates\<close>

text \<open>
  Claim C1, as amended. For every constraint class, each of the predicates
  \<^verbatim>\<open>is_equality_constraint()\<close>, \<^verbatim>\<open>is_inequality_constraint()\<close> and
  \<^verbatim>\<open>has_bounds()\<close> returns a boolean, at most one of the three returns true, and
  the value of each never changes after construction: it is the same after any
  sequence of updates, calls, property reads and assignments.
\<close>

theorem classification_is_static:
  "(\<exists>b. call_static self ''is_equality_constraint'' = Inr b)
   \<and> (\<exists>b. call_static self ''is_inequality_constraint'' = Inr b)
   \<and> (\<exists>b. call_static self ''has_bounds'' = Inr b)
   \<and> length (filter (\<lambda>n. call_static self n = Inr True)
        [''is_equality_constraint'', ''is_inequality_constraint'', ''has_bounds'']) \<le> 1
   \<and> call_static (perform_all self ops) ''is_equality_constraint''
       = call_static self ''is_equality_constraint''
   \<and> call_static (perform_all self ops) ''is_inequality_constraint''
       = call_static self ''is_inequality_constraint''
   \<and> call_static (perform_all self ops) ''has_bounds'' = call_static self ''has_bounds''"
proof -
  have "call_static (perform_all self ops) n = call_static self n" for n
    by (rule call_static_klass) (rule klass_perform_all)
  moreover have "length (filter (\<lambda>n. call_static self n = Inr True)
        [''is_equality_constraint'', ''is_inequality_constraint'', ''has_bounds'']) \<le> 1"
    by (simp add: call_static_def lookup_staticmethods Constraint_is_equality_constraint_def
        Constraint_is_inequality_constraint_def Constraint_has_bounds_def)
  moreover have "\<exists>b. call_static self ''is_equality_constraint'' = Inr b"
    "\<exists>b. call_static self ''is_inequality_constraint'' = Inr b"
    "\<exists>b. call_static self ''has_bounds'' = Inr b"
    by (simp_all add: call_static_def lookup_staticmethods)
  ultimately show ?thesis by simp
qed

text \<open>A \<^verbatim>\<open>BoundConstraint\<close> that is updated and then given a model.\<close>

theorem classification_is_static_witness:
  "length (filter (\<lambda>n. call_static \<lparr>klass = BoundConstraint, attrs = Map.empty\<rparr> n = Inr True)
        [''is_equality_constraint'', ''is_inequality_constraint'', ''has_bounds'']) \<le> 1
   \<and> call_static
        (perform_all \<lparr>klass = BoundConstraint, attrs = Map.empty\<rparr>
           [Update (PyNdarray [PyFloat 1]),
            SetProperty ''model'' (PyObject [''ModelInterface'', ''object''] [] [])])
        ''has_bounds''
       = call_static \<lparr>klass = BoundConstraint, attrs = Map.empty\<rparr> ''has_bounds''"
  using classification_is_static [of "\<lparr>klass = BoundConstraint, attrs = Map.empty\<rparr>"
      "[Update (PyNdarray [PyFloat 1]),
        SetProperty ''model'' (PyObject [''ModelInterface'', ''object''] [] [])]"]
  by simp

text \<open>
  The claim as first stated asks for exactly one true predicate. On a
  \<^verbatim>\<open>KinematicConstraint\<close> built on a model interface the three predicates return
  false.
\<close>

theorem classification_counterexample:
  "new KinematicConstraint (PyObject [''ModelInterface'', ''object''] [] [])
     = Inr \<lparr>klass = KinematicConstraint,
            attrs = [''_model'' \<mapsto> PyObject [''ModelInterface'', ''object''] [] []]\<rparr>
   \<and> call_static \<lparr>klass = KinematicConstraint,
            attrs = [''_model'' \<mapsto> PyObject [''ModelInterface'', ''object''] [] []]\<rparr>
        ''is_equality_constraint'' = Inr False
   \<and> call_static \<lparr>klass = KinematicConstraint,
            attrs = [''_model'' \<mapsto> PyObject [''ModelInterface'', ''object''] [] []]\<rparr>
        ''is_inequality_constraint'' = Inr False
   \<and> call_static \<lparr>klass = KinematicConstraint,
            attrs = [''_model'' \<mapsto> PyObject [''ModelInterface'', ''object''] [] []]\<rparr>
        ''has_bounds'' = Inr False"
  by (simp add: new_def call_method_def call_static_def Constraint_init_def
      Constraint_set_model_def isinstance_def Constraint_is_equality_constraint_def
      Constraint_is_inequality_constraint_def Constraint_has_bounds_def)

subsection \<open>The model\<close>

text \<open>
  Claim C4. Constructing a constraint, or assigning its \<^verbatim>\<open>model\<close> property, with a
  value that is not a \<^verbatim>\<open>ModelInterface\<close> raises \<^verbatim>\<open>TypeError\<close> (and an assignment
  that raises leaves the constraint as it was); with a \<^verbatim>\<open>ModelInterface\<close> both
  succeed, and \<^verbatim>\<open>model\<close> then reads as exactly the value passed.
\<close>

theorem model_is_checked:
  "(\<not> isinstance v ''ModelInterface'' \<longrightarrow>
      new k v = Inl TypeError \<and> set_property self ''model'' v = (Inl TypeError, self))
   \<and> (isinstance v ''ModelInterface'' \<longrightarrow>
      (\<exists>s. new k v = Inr s \<and> klass s = k \<and> get_property s ''model'' = (Inr v, s))
      \<and> (\<exists>s. set_property self ''model'' v = (Inr PyNone, s) \<and> klass s = klass self
            \<and> get_property s ''model'' = (Inr v, s)))"
  by (simp add: new_def call_init set_model Constraint_set_model_def get_property_def
      lookup_properties Constraint_model_def getattr_own_def)

text \<open>An integer is refused; an instance of a subclass of \<^verbatim>\<open>ModelInterface\<close> is kept.\<close>

theorem model_is_checked_witness:
  "\<not> isinstance (PyInt 3) ''ModelInterface''
   \<and> new EqualityConstraint (PyInt 3) = Inl TypeError
   \<and> isinstance (PyObject [''RobotModelInterface'', ''ModelInterface'', ''object''] [] [])
        ''ModelInterface''
   \<and> new EqualityConstraint
        (PyObject [''RobotModelInterface'', ''ModelInterface'', ''object''] [] [])
       = Inr \<lparr>klass = EqualityConstraint,
              attrs = [''_model'' \<mapsto>
                PyObject [''RobotModelInterface'', ''ModelInterface'', ''object''] [] []]\<rparr>
   \<and> get_property \<lparr>klass = EqualityConstraint,
              attrs = [''_model'' \<mapsto>
                PyObject [''RobotModelInterface'', ''ModelInterface'', ''object''] [] []]\<rparr>
          ''model''
       = (Inr (PyObject [''RobotModelInterface'', ''ModelInterface'', ''object''] [] []),
          \<lparr>klass = EqualityConstraint,
              attrs = [''_model'' \<mapsto>
                PyObject [''RobotModelInterface'', ''ModelInterface'', ''object''] [] []]\<rparr>)"
  using model_is_checked [of "PyInt 3" EqualityConstraint]
    model_is_checked
      [of "PyObject [''RobotModelInterface'', ''ModelInterface'', ''object''] [] []"
          EqualityConstraint]
  by (auto simp: isinstance_def new_def call_method_def Constraint_init_def
      Constraint_set_model_def get_property_def Constraint_model_def getattr_own_def)

subsection \<open>The accessors of the matrices and bounds\<close>

text \<open>
  Constructing a constraint assigns \<^verbatim>\<open>_model\<close> alone, and updating, calling and
  reading assign nothing: on a constraint as constructed the private attributes stay
  unassigned until something assigns them by name.
\<close>

lemma unassigned_until_assigned:
  assumes "new k model = Inr s" "f \<noteq> ''_model''"
    and "list_all (\<lambda>op. \<not> is_assignment op) ops"
  shows "attrs (perform_all s ops) f = None"
proof -
  have "attrs s f = None"
    using assms(1,2)
    by (auto simp: new_def call_init Constraint_set_model_def split: if_splits)
  then show ?thesis
    using attrs_perform_all [OF assms(3), of s] by simp
qed

text \<open>
  Claim C5, as amended. For every constraint, each of the accessors \<^verbatim>\<open>lower_bound\<close>,
  \<^verbatim>\<open>upper_bound\<close>, \<^verbatim>\<open>A_eq\<close>, \<^verbatim>\<open>b_eq\<close>, \<^verbatim>\<open>A_ineq\<close>, \<^verbatim>\<open>b_lower_bound\<close> and
  \<^verbatim>\<open>b_upper_bound\<close> reads the private attribute of its name. While that attribute has
  never been assigned, as on a constraint just constructed (before the first call to
  \<^verbatim>\<open>update\<close>), the read raises \<^verbatim>\<open>AttributeError\<close> and returns no value; once the
  attribute holds a value the read returns that value; and no read modifies the
  constraint.
\<close>

theorem accessor_reads_backing_attribute:
  assumes "n \<in> {''lower_bound'', ''upper_bound'', ''A_eq'', ''b_eq'', ''A_ineq'',
                 ''b_lower_bound'', ''b_upper_bound''}"
  shows "(attrs self (CHR ''_'' # n) = None \<longrightarrow> get_property self n = (Inl AttributeError, self))
       \<and> (\<forall>v. attrs self (CHR ''_'' # n) = Some v \<longrightarrow> get_property self n = (Inr v, self))
       \<and> (\<forall>s. new k model = Inr s \<longrightarrow> get_property s n = (Inl AttributeError, s))"
proof -
  have new: "attrs s (CHR ''_'' # n) = None" if "new k model = Inr s" for s
    using that assms
    by (auto simp: new_def call_init Constraint_set_model_def split: if_splits)
  have get: "get_property t n = (getattr_own t (CHR ''_'' # n), t)" for t
    using assms
    by (auto simp: get_property_def lookup_properties Constraint_lower_bound_def
        Constraint_upper_bound_def Constraint_A_eq_def Constraint_b_eq_def
        Constraint_A_ineq_def Constraint_b_lower_bound_def Constraint_b_upper_bound_def)
  show ?thesis
    by (simp add: get getattr_own_def new)
qed

text \<open>
  A \<^verbatim>\<open>JointEffortConstraint\<close> whose \<^verbatim>\<open>_b_eq\<close> holds an array and whose
  \<^verbatim>\<open>_A_eq\<close> was never assigned, and one as constructed.
\<close>

theorem accessor_reads_backing_attribute_witness:
  "''b_eq'' \<in> {''lower_bound'', ''upper_bound'', ''A_eq'', ''b_eq'', ''A_ineq'',
                 ''b_lower_bound'', ''b_upper_bound''}
   \<and> get_property
        \<lparr>klass = JointEffortConstraint, attrs = [''_b_eq'' \<mapsto> PyNdarray [PyFloat 2]]\<rparr> ''b_eq''
       = (Inr (PyNdarray [PyFloat 2]),
          \<lparr>klass = JointEffortConstraint, attrs = [''_b_eq'' \<mapsto> PyNdarray [PyFloat 2]]\<rparr>)
   \<and> get_property
        \<lparr>klass = JointEffortConstraint, attrs = [''_b_eq'' \<mapsto> PyNdarray [PyFloat 2]]\<rparr> ''A_eq''
       = (Inl AttributeError,
          \<lparr>klass = JointEffortConstraint, attrs = [''_b_eq'' \<mapsto> PyNdarray [PyFloat 2]]\<rparr>)
   \<and> new JointEffortConstraint (PyObject [''ModelInterface'', ''object''] [] [])
       = Inr \<lparr>klass = JointEffortConstraint,
              attrs = [''_model'' \<mapsto> PyObject [''ModelInterface'', ''object''] [] []]\<rparr>
   \<and> get_property \<lparr>klass = JointEffortConstraint,
              attrs = [''_model'' \<mapsto> PyObject [''ModelInterface'', ''object''] [] []]\<rparr> ''b_eq''
       = (Inl AttributeError, \<lparr>klass = JointEffortConstraint,
              attrs = [''_model'' \<mapsto> PyObject [''ModelInterface'', ''object''] [] []]\<rparr>)"
proof -
  have built: "new JointEffortConstraint (PyObject [''ModelInterface'', ''object''] [] [])
       = Inr \<lparr>klass = JointEffortConstraint,
              attrs = [''_model'' \<mapsto> PyObject [''ModelInterface'', ''object''] [] []]\<rparr>"
    by (simp add: new_def call_method_def Constraint_init_def Constraint_set_model_def
        isinstance_def)
  show ?thesis
    using built
      accessor_reads_backing_attribute [of "''b_eq''"
        "\<lparr>klass = JointEffortConstraint, attrs = [''_b_eq'' \<mapsto> PyNdarray [PyFloat 2]]\<rparr>"
        JointEffortConstraint "PyObject [''ModelInterface'', ''object''] [] []"]
      accessor_reads_backing_attribute [of "''A_eq''"
        "\<lparr>klass = JointEffortConstraint, attrs = [''_b_eq'' \<mapsto> PyNdarray [PyFloat 2]]\<rparr>"
        JointEffortConstraint "PyObject [''ModelInterface'', ''object''] [] []"]
    by simp
qed

text \<open>
  The claim as first stated has the accessors return a value once \<^verbatim>\<open>update\<close> has
  run. An \<^verbatim>\<open>EqualityConstraint\<close> is constructed on a model interface and updated
  with an array: the update returns \<^verbatim>\<open>None\<close> and leaves the constraint as it was,
  and reading \<^verbatim>\<open>A_eq\<close> afterwards raises \<^verbatim>\<open>AttributeError\<close>.
\<close>

theorem accessor_after_update_counterexample:
  "new EqualityConstraint (PyObject [''ModelInterface'', ''object''] [] [])
     = Inr \<lparr>klass = EqualityConstraint,
            attrs = [''_model'' \<mapsto> PyObject [''ModelInterface'', ''object''] [] []]\<rparr>
   \<and> call_method \<lparr>klass = EqualityConstraint,
            attrs = [''_model'' \<mapsto> PyObject [''ModelInterface'', ''object''] [] []]\<rparr>
        ''update'' (PyNdarray [PyFloat 0])
      = (Inr PyNone, \<lparr>klass = EqualityConstraint,
            attrs = [''_model'' \<mapsto> PyObject [''ModelInterface'', ''object''] [] []]\<rparr>)
   \<and> get_property \<lparr>klass = EqualityConstraint,
            attrs = [''_model'' \<mapsto> PyObject [''ModelInterface'', ''object''] [] []]\<rparr> ''A_eq''
      = (Inl AttributeError, \<lparr>klass = EqualityConstraint,
            attrs = [''_model'' \<mapsto> PyObject [''ModelInterface'', ''object''] [] []]\<rparr>)"
  by (simp add: new_def call_method_def Constraint_init_def Constraint_set_model_def
      isinstance_def Constraint_update_def get_property_def Constraint_A_eq_def getattr_own_def)

subsection \<open>\<^verbatim>\<open>update\<close>\<close>




subsection \<open>The standard form\<close>

text \<open>
  Claim C7. For every constraint, of any of the eleven classes and in any state, the
  properties \<^verbatim>\<open>G\<close>, \<^verbatim>\<open>h\<close>, \<^verbatim>\<open>F\<close> and \<^verbatim>\<open>c\<close> return \<^verbatim>\<open>None\<close>: none raises, none
  computes anything from the matrices, none changes the constraint.
\<close>

theorem standard_form_unimplemented:
  "get_property self ''G'' = (Inr PyNone, self)
   \<and> get_property self ''h'' = (Inr PyNone, self)
   \<and> get_property self ''F'' = (Inr PyNone, self)
   \<and> get_property self ''c'' = (Inr PyNone, self)"
  by (simp add: get_property_def lookup_properties Constraint_G_def Constraint_h_def
      Constraint_F_def Constraint_c_def)

text \<open>A \<^verbatim>\<open>BilateralConstraint\<close> whose inequality matrix and bounds are set.\<close>

theorem standard_form_unimplemented_witness:
  "fst (get_property
     \<lparr>klass = BilateralConstraint,
      attrs = [''_A_ineq'' \<mapsto> PyNdarray [PyFloat 1],
               ''_b_lower_bound'' \<mapsto> PyNdarray [PyFloat 0],
               ''_b_upper_bound'' \<mapsto> PyNdarray [PyFloat 4]]\<rparr> ''G'') = Inr PyNone
   \<and> fst (get_property
     \<lparr>klass = BilateralConstraint,
      attrs = [''_A_ineq'' \<mapsto> PyNdarray [PyFloat 1],
               ''_b_lower_bound'' \<mapsto> PyNdarray [PyFloat 0],
               ''_b_upper_bound'' \<mapsto> PyNdarray [PyFloat 4]]\<rparr> ''h'') = Inr PyNone"
  using standard_form_unimplemented
    [of "\<lparr>klass = BilateralConstraint,
      attrs = [''_A_ineq'' \<mapsto> PyNdarray [PyFloat 1],
               ''_b_lower_bound'' \<mapsto> PyNdarray [PyFloat 0],
               ''_b_upper_bound'' \<mapsto> PyNdarray [PyFloat 4]]\<rparr>"]
  by simp

section \<open>Properties of the approximator\<close>

text \<open>
  Whatever shape the model declares, the setter stores the model as soon as the inputs
  and the outputs are set and the model has an \<^verbatim>\<open>input_shape\<close> to read.
\<close>

lemma set_model_ignores_shape:
  assumes "model \<noteq> PyNone" "self ''_inputs'' = Some i" "i \<noteq> PyNone"
    and "self ''_outputs'' = Some out" "out \<noteq> PyNone"
    and "getattr_value model ''input_shape'' = Inr shape"
  shows "Approximator_set_model self model = Inr (self(''_model'' \<mapsto> model))"
  using assms by (simp add: Approximator_set_model_def)

lemma set_model_needs_inputs_and_outputs:
  assumes "model \<noteq> PyNone"
    and "self ''_inputs'' = Some PyNone
         \<or> (\<exists>i. self ''_inputs'' = Some i \<and> i \<noteq> PyNone) \<and> self ''_outputs'' = Some PyNone"
  shows "Approximator_set_model self model = Inl ValueError"
  using assms by (auto simp: Approximator_set_model_def)

text \<open>
  Claim C8 asks the setter of the model to raise \<^verbatim>\<open>ValueError\<close> when the shapes of the
  model differ from the declared inputs and outputs. An approximator is constructed
  with an array of three inputs, an array of two outputs and a model whose
  \<^verbatim>\<open>input_shape\<close> is \<^verbatim>\<open>(5,)\<close> and whose \<^verbatim>\<open>output_shape\<close> is \<^verbatim>\<open>(7,)\<close>: the
  construction succeeds and the model is stored.
\<close>

theorem model_shape_mismatch_accepted:
  "Approximator_init
     (PyNdarray [PyFloat 1, PyFloat 2, PyFloat 3]) (PyNdarray [PyFloat 1, PyFloat 2])
     (PyObject [''Model'', ''object''] []
        [(''input_shape'', PyTuple [PyInt 5]), (''output_shape'', PyTuple [PyInt 7])])
     PyNone PyNone
   = Inr ([''_model'' \<mapsto> PyNone,
           ''_inputs'' \<mapsto> PyNdarray [PyFloat 1, PyFloat 2, PyFloat 3],
           ''_outputs'' \<mapsto> PyNdarray [PyFloat 1, PyFloat 2],
           ''_preprocessors'' \<mapsto> PyList [],
           ''_postprocessors'' \<mapsto> PyList [],
           ''_model'' \<mapsto> PyObject [''Model'', ''object''] []
              [(''input_shape'', PyTuple [PyInt 5]), (''output_shape'', PyTuple [PyInt 7])]])"
  by (simp add: Approximator_init_def Approximator_set_inputs_def Approximator_set_outputs_def
      Approximator_set_preprocessors_def Approximator_set_postprocessors_def
      Approximator_set_model_def checked_processors_def isinstance_any_def isinstance_def)

section \<open>Properties of the quadratic programs\<close>

subsection \<open>Sums over the entries\<close>

lemma dot_sum: "length u = length v \<Longrightarrow> dot u v = (\<Sum>i<length u. u ! i * v ! i)"
  by (simp add: dot_def sum_list_sum_nth atLeast0LessThan)

lemma dot_commute: "dot u v = dot v u"
  by (induction u v rule: list_induct2') (simp_all add: dot_def)

lemma length_mat_vec [simp]: "length (mat_vec A x) = length A"
  by (simp add: mat_vec_def)

lemma is_matrix_row: "is_matrix m n A \<Longrightarrow> i < m \<Longrightarrow> length (A ! i) = n"
  by (auto simp: is_matrix_def list_all_length)

lemma is_matrix_length: "is_matrix m n A \<Longrightarrow> length A = m"
  by (simp add: is_matrix_def)

lemma transpose_matrix: "is_matrix m n A \<Longrightarrow> is_matrix n m (mat_transpose n A)"
  by (simp add: mat_transpose_def is_matrix_def list_all_length)

lemma nth_transpose_matrix:
  "is_matrix m n A \<Longrightarrow> i < m \<Longrightarrow> j < n \<Longrightarrow> mat_transpose n A ! j ! i = A ! i ! j"
  by (simp add: mat_transpose_def is_matrix_def)

lemma mat_vec_sum:
  assumes "is_matrix m n A" "length x = n" "i < m"
  shows "mat_vec A x ! i = (\<Sum>j<n. A ! i ! j * x ! j)"
  using assms is_matrix_length [OF assms(1)] is_matrix_row [OF assms(1,3)]
  by (simp add: mat_vec_def dot_sum)

text \<open>The transposed matrix is the adjoint for the dot product.\<close>

lemma dot_transpose:
  assumes "is_matrix m n A" "length x = n" "length y = m"
  shows "dot (mat_vec (mat_transpose n A) y) x = dot y (mat_vec A x)"
proof -
  note T = transpose_matrix [OF assms(1)]
  have lenT: "length (mat_transpose n A) = n" and lenA: "length A = m"
    using T assms(1) by (simp_all add: is_matrix_length)
  have "dot (mat_vec (mat_transpose n A) y) x
      = (\<Sum>j<n. mat_vec (mat_transpose n A) y ! j * x ! j)"
    using assms lenT by (simp add: dot_sum)
  also have "\<dots> = (\<Sum>j<n. (\<Sum>i<m. A ! i ! j * y ! i) * x ! j)"
  proof (rule sum.cong [OF refl])
    fix j assume "j \<in> {..<n}"
    then have j: "j < n" by simp
    have "mat_vec (mat_transpose n A) y ! j = (\<Sum>i<m. mat_transpose n A ! j ! i * y ! i)"
      using mat_vec_sum [OF T assms(3) j] .
    also have "\<dots> = (\<Sum>i<m. A ! i ! j * y ! i)"
      by (rule sum.cong [OF refl]) (simp add: nth_transpose_matrix [OF assms(1) _ j])
    finally show "mat_vec (mat_transpose n A) y ! j * x ! j
        = (\<Sum>i<m. A ! i ! j * y ! i) * x ! j"
      by simp
  qed
  also have "\<dots> = (\<Sum>j<n. \<Sum>i<m. y ! i * (A ! i ! j * x ! j))"
    by (simp add: sum_distrib_left sum_distrib_right mult_ac)
  also have "\<dots> = (\<Sum>i<m. \<Sum>j<n. y ! i * (A ! i ! j * x ! j))"
    by (rule sum.swap)
  also have "\<dots> = (\<Sum>i<m. y ! i * mat_vec A x ! i)"
    by (rule sum.cong [OF refl]) (simp add: mat_vec_sum [OF assms(1,2)] sum_distrib_left)
  also have "\<dots> = dot y (mat_vec A x)"
    using assms lenA by (simp add: dot_sum)
  finally show ?thesis .
qed

text \<open>The product of two matrices acts as the one after the other.\<close>

lemma mat_mul_matrix:
  assumes "is_matrix m k A" "is_matrix k n B"
  shows "is_matrix m n (mat_mul n A B)"
proof -
  have "length (mat_transpose n B) = n"
    using transpose_matrix [OF assms(2)] by (simp add: is_matrix_length)
  then show ?thesis
    using assms(1) by (simp add: mat_mul_def is_matrix_def list_all_length)
qed

lemma nth_mat_mul:
  assumes "is_matrix m k A" "is_matrix k n B" "i < m" "j < n"
  shows "mat_mul n A B ! i ! j = (\<Sum>l<k. A ! i ! l * B ! l ! j)"
proof -
  note T = transpose_matrix [OF assms(2)]
  have lenT: "length (mat_transpose n B) = n" and lenA: "length A = m"
    using T assms(1) by (simp_all add: is_matrix_length)
  have rowA: "length (A ! i) = k" and rowT: "length (mat_transpose n B ! j) = k"
    using is_matrix_row [OF assms(1,3)] is_matrix_row [OF T assms(4)] by simp_all
  have "mat_mul n A B ! i ! j = dot (A ! i) (mat_transpose n B ! j)"
    using assms lenT lenA by (simp add: mat_mul_def)
  also have "\<dots> = (\<Sum>l<k. A ! i ! l * mat_transpose n B ! j ! l)"
    using rowA rowT by (simp add: dot_sum)
  also have "\<dots> = (\<Sum>l<k. A ! i ! l * B ! l ! j)"
    by (rule sum.cong [OF refl]) (simp add: nth_transpose_matrix [OF assms(2) _ assms(4)])
  finally show ?thesis .
qed

lemma mat_vec_mat_mul:
  assumes "is_matrix m k A" "is_matrix k n B" "length x = n"
  shows "mat_vec (mat_mul n A B) x = mat_vec A (mat_vec B x)"
proof -
  note M = mat_mul_matrix [OF assms(1,2)]
  have lenM: "length (mat_mul n A B) = m" and lenA: "length A = m" and lenB: "length B = k"
    using M assms(1,2) by (simp_all add: is_matrix_length)
  show ?thesis
  proof (rule nth_equalityI)
    show "length (mat_vec (mat_mul n A B) x) = length (mat_vec A (mat_vec B x))"
      using lenM lenA by simp
  next
    fix i assume "i < length (mat_vec (mat_mul n A B) x)"
    then have i: "i < m" using lenM by simp
    have "mat_vec (mat_mul n A B) x ! i = (\<Sum>j<n. mat_mul n A B ! i ! j * x ! j)"
      using mat_vec_sum [OF M assms(3) i] .
    also have "\<dots> = (\<Sum>j<n. (\<Sum>l<k. A ! i ! l * B ! l ! j) * x ! j)"
      by (rule sum.cong [OF refl]) (simp add: nth_mat_mul [OF assms(1,2) i])
    also have "\<dots> = (\<Sum>j<n. \<Sum>l<k. A ! i ! l * (B ! l ! j * x ! j))"
      by (simp add: sum_distrib_left sum_distrib_right mult_ac)
    also have "\<dots> = (\<Sum>l<k. \<Sum>j<n. A ! i ! l * (B ! l ! j * x ! j))"
      by (rule sum.swap)
    also have "\<dots> = (\<Sum>l<k. A ! i ! l * mat_vec B x ! l)"
      by (rule sum.cong [OF refl]) (simp add: mat_vec_sum [OF assms(2,3)] sum_distrib_left)
    also have "\<dots> = mat_vec A (mat_vec B x) ! i"
      using mat_vec_sum [OF assms(1) _ i, of "mat_vec B x"] lenB by simp
    finally show "mat_vec (mat_mul n A B) x ! i = mat_vec A (mat_vec B x) ! i" .
  qed
qed

text \<open>The dot product and the product with a matrix are linear.\<close>

lemma dot_sub_left: "length u = length v \<Longrightarrow> dot (vec_sub u v) w = dot u w - dot v w"
proof (induction u v arbitrary: w rule: list_induct2)
  case Nil
  then show ?case by (simp add: vec_sub_def dot_def)
next
  case (Cons a u b v)
  then show ?case
    by (cases w) (simp_all add: vec_sub_def dot_def algebra_simps)
qed

lemma dot_sub_right: "length u = length v \<Longrightarrow> dot w (vec_sub u v) = dot w u - dot w v"
  using dot_sub_left [of u v w] by (simp add: dot_commute)

lemma dot_add_left: "length u = length v \<Longrightarrow> dot (vec_add u v) w = dot u w + dot v w"
proof (induction u v arbitrary: w rule: list_induct2)
  case Nil
  then show ?case by (simp add: vec_add_def dot_def)
next
  case (Cons a u b v)
  then show ?case
    by (cases w) (simp_all add: vec_add_def dot_def algebra_simps)
qed

lemma dot_scale_left: "dot (scale a u) w = a * dot u w"
  by (induction u w rule: list_induct2') (simp_all add: scale_def dot_def algebra_simps)

lemma mat_vec_sub:
  "length u = length v \<Longrightarrow> mat_vec W (vec_sub u v) = vec_sub (mat_vec W u) (mat_vec W v)"
  by (induction W) (simp_all add: mat_vec_def vec_sub_def dot_sub_right [unfolded vec_sub_def])

text \<open>The three terms of the objective.\<close>

lemma symmetric_dot:
  assumes "is_matrix m m W" "symmetric W" "length u = m" "length v = m"
  shows "dot u (mat_vec W v) = dot v (mat_vec W u)"
proof -
  have lenW: "length W = m"
    using assms(1) by (simp add: is_matrix_length)
  have "dot u (mat_vec W v) = dot (mat_vec (mat_transpose m W) u) v"
    using dot_transpose [OF assms(1,4,3)] by simp
  also have "\<dots> = dot v (mat_vec W u)"
    using assms(2) lenW by (simp add: symmetric_def dot_commute)
  finally show ?thesis .
qed

lemma objective_expand:
  assumes "is_matrix m m W" "symmetric W" "length u = m" "length b = m"
  shows "weighted_sq_norm W (vec_sub u b)
       = dot u (mat_vec W u) - 2 * dot u (mat_vec W b) + dot b (mat_vec W b)"
proof -
  have lenW: "length W = m"
    using assms(1) by (simp add: is_matrix_length)
  have "weighted_sq_norm W (vec_sub u b)
      = dot (vec_sub u b) (vec_sub (mat_vec W u) (mat_vec W b))"
    using assms by (simp add: weighted_sq_norm_def mat_vec_sub)
  also have "\<dots> = dot u (mat_vec W u) - dot u (mat_vec W b)
                   - (dot b (mat_vec W u) - dot b (mat_vec W b))"
    using assms lenW by (simp add: dot_sub_left dot_sub_right)
  also have "dot b (mat_vec W u) = dot u (mat_vec W b)"
    by (rule symmetric_dot [OF assms(1,2,4,3)])
  finally show ?thesis by simp
qed

lemma quadratic_term:
  assumes "is_matrix m n A" "is_matrix m m W" "length x = n"
  shows "dot x (mat_vec (qp_Q n A W) x) = dot (mat_vec A x) (mat_vec W (mat_vec A x))"
proof -
  note T = transpose_matrix [OF assms(1)]
  note WA = mat_mul_matrix [OF assms(2,1)]
  have lenW: "length W = m"
    using assms(2) by (simp add: is_matrix_length)
  have "mat_vec (qp_Q n A W) x = mat_vec (mat_transpose n A) (mat_vec (mat_mul n W A) x)"
    unfolding qp_Q_def by (rule mat_vec_mat_mul [OF T WA assms(3)])
  also have "mat_vec (mat_mul n W A) x = mat_vec W (mat_vec A x)"
    by (rule mat_vec_mat_mul [OF assms(2,1,3)])
  finally have "dot x (mat_vec (qp_Q n A W) x)
      = dot (mat_vec (mat_transpose n A) (mat_vec W (mat_vec A x))) x"
    by (simp add: dot_commute)
  also have "\<dots> = dot (mat_vec W (mat_vec A x)) (mat_vec A x)"
    using lenW by (intro dot_transpose [OF assms(1,3)]) simp
  finally show ?thesis by (simp add: dot_commute)
qed

lemma linear_term:
  assumes "is_matrix m n A" "is_matrix m m W" "length x = n" "length b = m"
  shows "dot (qp_p n A W b) x = - 2 * dot (mat_vec A x) (mat_vec W b)"
    and "length (qp_p n A W b) = n"
proof -
  note T = transpose_matrix [OF assms(1)]
  have lenW: "length W = m" and lenT: "length (mat_transpose n A) = n"
    using assms(2) T by (simp_all add: is_matrix_length)
  have eq: "mat_vec (mat_mul m (mat_transpose n A) W) b
      = mat_vec (mat_transpose n A) (mat_vec W b)"
    by (rule mat_vec_mat_mul [OF T assms(2,4)])
  have "dot (qp_p n A W b) x = - 2 * dot (mat_vec (mat_transpose n A) (mat_vec W b)) x"
    by (simp add: qp_p_def lenW eq dot_scale_left)
  also have "dot (mat_vec (mat_transpose n A) (mat_vec W b)) x = dot (mat_vec W b) (mat_vec A x)"
    using lenW by (intro dot_transpose [OF assms(1,3)]) simp
  finally show "dot (qp_p n A W b) x = - 2 * dot (mat_vec A x) (mat_vec W b)"
    by (simp add: dot_commute)
  show "length (qp_p n A W b) = n"
    using lenT by (simp add: qp_p_def lenW scale_def eq)
qed

subsection \<open>The standard form of a soft task\<close>

text \<open>
  Claim C3. For every matrix \<open>A\<close> (of \<open>m\<close> rows and \<open>n\<close> columns), vector \<open>b\<close> and
  symmetric weight matrix \<open>W\<close> (positive semidefinite or not), the objective
  \<open>||A x - b||\<^sup>2\<^sub>W\<close> equals \<open>x\<^sup>T Q x + p\<^sup>T x\<close> plus the constant \<open>b\<^sup>T W b\<close>, which
  does not depend on \<open>x\<close>, with \<open>Q = A\<^sup>T W A\<close> and \<open>p = -2 A\<^sup>T W b\<close>; and when a linear
  cost term \<open>c\<^sup>T x\<close> is added to the objective, the same holds with
  \<open>p = c - 2 A\<^sup>T W b\<close>.
\<close>

theorem soft_objective_standard_form:
  assumes "is_matrix m n A" "length b = m" "is_matrix m m W" "symmetric W"
    and "length x = n" "length c = n"
  shows "objective A b W x
           = standard_form (qp_Q n A W) (qp_p n A W b) x + weighted_sq_norm W b
       \<and> objective A b W x + dot c x
           = standard_form (qp_Q n A W) (qp_p_linear n A W b c) x + weighted_sq_norm W b"
proof -
  have lenAx: "length (mat_vec A x) = m"
    using assms(1) by (simp add: is_matrix_length)
  have obj: "objective A b W x
      = dot (mat_vec A x) (mat_vec W (mat_vec A x)) - 2 * dot (mat_vec A x) (mat_vec W b)
        + dot b (mat_vec W b)"
    unfolding objective_def by (rule objective_expand [OF assms(3,4) lenAx assms(2)])
  have quad: "dot x (mat_vec (qp_Q n A W) x) = dot (mat_vec A x) (mat_vec W (mat_vec A x))"
    by (rule quadratic_term [OF assms(1,3,5)])
  have lin: "dot (qp_p n A W b) x = - 2 * dot (mat_vec A x) (mat_vec W b)"
    and len: "length (qp_p n A W b) = n"
    by (rule linear_term [OF assms(1,3,5,2)])+
  have lin_c: "dot (qp_p_linear n A W b c) x = dot c x + dot (qp_p n A W b) x"
    using assms(6) len by (simp add: qp_p_linear_def dot_add_left)
  show ?thesis
    by (simp add: standard_form_def obj quad lin lin_c weighted_sq_norm_def)
qed

text \<open>Three rows, two columns, a symmetric weight that is not diagonal.\<close>

theorem soft_objective_standard_form_witness:
  "is_matrix 3 2 [[1, 2], [3, 4], [0, 1]] \<and> length [1, 0, 2 :: real] = 3
   \<and> is_matrix 3 3 [[2, 1, 0], [1, 3, 1], [0, 1, 1]]
   \<and> symmetric [[2, 1, 0], [1, 3, 1], [0, 1, 1]]
   \<and> length [1, - 1 :: real] = 2 \<and> length [5, 7 :: real] = 2
   \<and> objective [[1, 2], [3, 4], [0, 1]] [1, 0, 2] [[2, 1, 0], [1, 3, 1], [0, 1, 1]] [1, - 1]
       = 30
   \<and> standard_form (qp_Q 2 [[1, 2], [3, 4], [0, 1]] [[2, 1, 0], [1, 3, 1], [0, 1, 1]])
        (qp_p 2 [[1, 2], [3, 4], [0, 1]] [[2, 1, 0], [1, 3, 1], [0, 1, 1]] [1, 0, 2]) [1, - 1]
       = 24
   \<and> standard_form (qp_Q 2 [[1, 2], [3, 4], [0, 1]] [[2, 1, 0], [1, 3, 1], [0, 1, 1]])
        (qp_p_linear 2 [[1, 2], [3, 4], [0, 1]] [[2, 1, 0], [1, 3, 1], [0, 1, 1]] [1, 0, 2]
           [5, 7]) [1, - 1]
       = 22
   \<and> weighted_sq_norm [[2, 1, 0], [1, 3, 1], [0, 1, 1]] [1, 0, 2] = 6"
proof -
  have h: "is_matrix 3 2 [[1, 2], [3, 4], [0, 1]]" "length [1, 0, 2 :: real] = 3"
    "is_matrix 3 3 [[2, 1, 0], [1, 3, 1], [0, 1, 1]]"
    "symmetric [[2, 1, 0], [1, 3, 1], [0, 1, 1]]"
    "length [1, - 1 :: real] = 2" "length [5, 7 :: real] = 2"
    by (simp_all add: is_matrix_def symmetric_def mat_transpose_def upt_rec)
  have v: "objective [[1, 2], [3, 4], [0, 1]] [1, 0, 2] [[2, 1, 0], [1, 3, 1], [0, 1, 1]] [1, - 1]
       = 30"
    "weighted_sq_norm [[2, 1, 0], [1, 3, 1], [0, 1, 1]] [1, 0, 2] = 6"
    "dot [5, 7] [1, - 1] = - 2"
    by (simp_all add: objective_def weighted_sq_norm_def mat_vec_def vec_sub_def dot_def)
  show ?thesis
    using h v soft_objective_standard_form [OF h] by simp
qed

subsection \<open>The cascade of hard priorities\<close>

lemma all_frozen_nth:
  "all_frozen Ls sols i x
     = (\<forall>k. k < i \<and> k < length Ls \<and> k < length sols \<longrightarrow> frozen (Ls ! k) (sols ! k) x)"
  by (auto simp: all_frozen_def list_all_length)

lemma frozen_residual: "frozen L xstar x \<Longrightarrow> residual L x = residual L xstar"
  by (simp add: frozen_def residual_def)

lemma feasible_higher_level:
  assumes "feasible Ls sols i x" "j \<le> i"
  shows "feasible Ls sols j x"
proof -
  have "set (take (Suc j) Ls) \<subseteq> set (take (Suc i) Ls)"
    using assms(2) by (intro set_take_subset_set_take) simp
  then have "list_all (\<lambda>L. own_constraints L x) (take (Suc j) Ls)"
    using assms(1) by (auto simp: feasible_def list_all_iff)
  moreover have "all_frozen Ls sols j x"
    using assms by (simp add: feasible_def all_frozen_nth)
  ultimately show ?thesis by (simp add: feasible_def)
qed

lemma dot_self_nonneg: "0 \<le> dot v v"
  by (induction v) (simp_all add: dot_def)

lemma vec_norm_nonneg: "0 \<le> vec_norm v"
  by (simp add: vec_norm_def dot_self_nonneg)


text \<open>
  Claim C2. In a cascade of hard priorities, any \<open>x\<close> that satisfies the frozen
  equality \<open>A\<^sub>j x = A\<^sub>j x\<^sub>j\<^sup>*\<close> of each level \<open>j\<close> of higher priority than level
  \<open>i\<close> has at each such level exactly the residual \<open>||A\<^sub>j x - b\<^sub>j||\<close> that
  \<open>x\<^sub>j\<^sup>*\<close> had. Hence the solution of level \<open>i\<close> does not degrade what the levels
  before it attained: it has their residuals, and it solves each level \<open>j\<close> that
  \<open>x\<^sub>j\<^sup>*\<close> solves.
\<close>

theorem hard_priority_preserved:
  assumes "j < i" "j < length Ls" "j < length sols"
  shows "(all_frozen Ls sols i x \<longrightarrow> residual (Ls ! j) x = residual (Ls ! j) (sols ! j))
       \<and> (solves Ls sols i x \<longrightarrow>
            residual (Ls ! j) x = residual (Ls ! j) (sols ! j)
            \<and> (solves Ls sols j (sols ! j) \<longrightarrow> solves Ls sols j x))"
proof -
  have res: "residual (Ls ! j) x = residual (Ls ! j) (sols ! j)" if "all_frozen Ls sols i x"
  proof -
    have "frozen (Ls ! j) (sols ! j) x"
      using that assms unfolding all_frozen_nth by blast
    then show ?thesis
      by (rule frozen_residual)
  qed
  have pres: "solves Ls sols j x"
    if "solves Ls sols i x" "solves Ls sols j (sols ! j)"
  proof -
    have feas: "feasible Ls sols i x"
      using that(1) by (simp add: solves_def)
    then have same: "residual (Ls ! j) x = residual (Ls ! j) (sols ! j)"
      by (intro res) (simp add: feasible_def)
    have "feasible Ls sols j x"
      using feas assms(1) by (auto intro: feasible_higher_level [of Ls sols i x j])
    moreover have "\<forall>y. feasible Ls sols j y
        \<longrightarrow> residual (Ls ! j) (sols ! j) \<le> residual (Ls ! j) y"
      using that(2) unfolding solves_def by blast
    ultimately show ?thesis
      unfolding solves_def same by blast
  qed
  have "residual (Ls ! j) x = residual (Ls ! j) (sols ! j)" if "solves Ls sols i x"
    using that by (intro res) (simp add: solves_def feasible_def)
  with res pres show ?thesis by blast
qed

text \<open>
  Two levels: the first asks for \<open>x\<^sub>0 = 1\<close> and is solved by \<open>(1, 0)\<close>; the second
  asks for \<open>x\<^sub>1 = 2\<close> under \<open>x\<^sub>0 + x\<^sub>1 \<le> 5\<close> and is solved by \<open>(1, 2)\<close>, which has
  the residual 0 of \<open>(1, 0)\<close> at the first level and solves it too.
\<close>

theorem hard_priority_preserved_witness:
  "all_frozen
     [\<lparr>task_A = [[1, 0]], task_b = [1], ineq_G = [], ineq_h = [], eq_F = [], eq_c = []\<rparr>,
      \<lparr>task_A = [[0, 1]], task_b = [2], ineq_G = [[1, 1]], ineq_h = [5], eq_F = [], eq_c = []\<rparr>]
     [[1, 0]] 1 [1, 2]
   \<and> solves
     [\<lparr>task_A = [[1, 0]], task_b = [1], ineq_G = [], ineq_h = [], eq_F = [], eq_c = []\<rparr>,
      \<lparr>task_A = [[0, 1]], task_b = [2], ineq_G = [[1, 1]], ineq_h = [5], eq_F = [], eq_c = []\<rparr>]
     [[1, 0]] 1 [1, 2]
   \<and> solves
     [\<lparr>task_A = [[1, 0]], task_b = [1], ineq_G = [], ineq_h = [], eq_F = [], eq_c = []\<rparr>,
      \<lparr>task_A = [[0, 1]], task_b = [2], ineq_G = [[1, 1]], ineq_h = [5], eq_F = [], eq_c = []\<rparr>]
     [[1, 0]] 0 [1, 0]
   \<and> residual
        \<lparr>task_A = [[1, 0]], task_b = [1], ineq_G = [], ineq_h = [], eq_F = [], eq_c = []\<rparr>
        [1, 2]
       = residual
        \<lparr>task_A = [[1, 0]], task_b = [1], ineq_G = [], ineq_h = [], eq_F = [], eq_c = []\<rparr>
        [1, 0]
   \<and> residual
        \<lparr>task_A = [[1, 0]], task_b = [1], ineq_G = [], ineq_h = [], eq_F = [], eq_c = []\<rparr>
        [1, 2] = 0
   \<and> solves
     [\<lparr>task_A = [[1, 0]], task_b = [1], ineq_G = [], ineq_h = [], eq_F = [], eq_c = []\<rparr>,
      \<lparr>task_A = [[0, 1]], task_b = [2], ineq_G = [[1, 1]], ineq_h = [5], eq_F = [], eq_c = []\<rparr>]
     [[1, 0]] 0 [1, 2]"
  (is "?frozen \<and> ?solves1 \<and> ?solves0 \<and> ?res \<and> ?zero \<and> ?solves0'")
proof -
  have frozen: ?frozen
    by (simp add: all_frozen_def frozen_def mat_vec_def dot_def)
  have zero1: "residual \<lparr>task_A = [[0, 1]], task_b = [2], ineq_G = [[1, 1]], ineq_h = [5],
      eq_F = [], eq_c = []\<rparr> [1, 2] = 0"
    by (simp add: residual_def mat_vec_def dot_def vec_sub_def vec_norm_def)
  have zero0: "residual \<lparr>task_A = [[1, 0]], task_b = [1], ineq_G = [], ineq_h = [],
      eq_F = [], eq_c = []\<rparr> [1, 0] = 0"
    by (simp add: residual_def mat_vec_def dot_def vec_sub_def vec_norm_def)
  have nonneg: "0 \<le> residual L y" for L y
    by (simp add: residual_def vec_norm_nonneg)
  have solves1: ?solves1
    by (simp add: solves_def zero1 nonneg)
      (simp add: feasible_def all_frozen_def frozen_def own_constraints_def mat_vec_def dot_def)
  have solves0: ?solves0
    by (simp add: solves_def zero0 nonneg)
      (simp add: feasible_def all_frozen_def own_constraints_def mat_vec_def)
  have "(0::nat) < 1" "(0::nat) < length [a, b]" "(0::nat) < length [c]"
    for a b :: level and c :: vec
    by simp_all
  from hard_priority_preserved [OF this] frozen solves1 solves0
  have ?res and ?solves0' by simp_all
  with frozen solves1 solves0 zero0 show ?thesis by simp
qed

end
